theory Spec2Isabelle
  imports Complex_Main
begin

section \<open>JavaScript values\<close>

text \<open>
  A JavaScript number is an IEEE double. Only its order against the constant \<open>2.0\<close>
  matters to the form, so the finite doubles are embedded in the rationals and the three
  special values are kept apart. Every comparison with \<open>NaN\<close> is false.
\<close>

datatype jsnum = Num rat | PosInf | NegInf | NaN

fun js_gt :: "jsnum \<Rightarrow> jsnum \<Rightarrow> bool" where
  "js_gt NaN b = False"
| "js_gt a NaN = False"
| "js_gt (Num x) (Num y) = (y < x)"
| "js_gt (Num x) PosInf = False"
| "js_gt (Num x) NegInf = True"
| "js_gt PosInf PosInf = False"
| "js_gt PosInf b = True"
| "js_gt NegInf b = False"

text \<open>\<open>a <= b\<close> of JavaScript: false when either side is \<open>NaN\<close>, otherwise \<open>!(a > b)\<close>.\<close>

definition js_le :: "jsnum \<Rightarrow> jsnum \<Rightarrow> bool" where
  "js_le a b = (a \<noteq> NaN \<and> b \<noteq> NaN \<and> \<not> js_gt a b)"

text \<open>The argument type \<open>string | number\<close> of \<open>handleChange\<close>.\<close>

datatype jsvalue = VStr string | VNum jsnum

text \<open>
  \<open>Number(value)\<close>: the identity on a number. The conversion of a string is the
  runtime's \<open>StringToNumber\<close>, which is not part of the repository; it is the
  parameter \<open>s2n\<close> of everything that converts.
\<close>

definition Number :: "(string \<Rightarrow> jsnum) \<Rightarrow> jsvalue \<Rightarrow> jsnum" where
  "Number s2n v = (case v of VNum n \<Rightarrow> n | VStr s \<Rightarrow> s2n s)"

text \<open>Truthiness of a \<open>string | null\<close>, the \<open>!!error\<close> of the submit button.\<close>

definition truthy :: "string option \<Rightarrow> bool" where
  "truthy e = (case e of None \<Rightarrow> False | Some m \<Rightarrow> m \<noteq> [])"

section \<open>TradeEvaluationForm\<close>

text \<open>
  The interface \<open>AuditRequest\<close>. A field holds whatever \<open>handleChange\<close> stored in it,
  hence a \<open>jsvalue\<close>.
\<close>

record AuditRequest =
  symbol :: jsvalue
  strategy_type :: jsvalue
  account_balance :: jsvalue
  risk_percentage :: jsvalue

text \<open>\<open>keyof AuditRequest\<close>.\<close>

datatype field = Symbol | Strategy_type | Account_balance | Risk_percentage

text \<open>The object spread \<open>{ ...prev, [field]: value }\<close>.\<close>

fun set_field :: "field \<Rightarrow> jsvalue \<Rightarrow> AuditRequest \<Rightarrow> AuditRequest" where
  "set_field Symbol v r = r\<lparr>symbol := v\<rparr>"
| "set_field Strategy_type v r = r\<lparr>strategy_type := v\<rparr>"
| "set_field Account_balance v r = r\<lparr>account_balance := v\<rparr>"
| "set_field Risk_percentage v r = r\<lparr>risk_percentage := v\<rparr>"

text \<open>The two \<open>useState\<close> cells of the form.\<close>

record form_state =
  formData :: AuditRequest
  error :: "string option"

definition initial_formData :: AuditRequest where
  "initial_formData =
     \<lparr>symbol = VStr ''BTC/USDT'', strategy_type = VStr ''TREND_FOLLOWING'',
      account_balance = VNum (Num 10000), risk_percentage = VNum (Num 1)\<rparr>"

definition initial_form :: form_state where
  "initial_form = \<lparr>formData = initial_formData, error = None\<rparr>"

definition risk_advisory :: string where
  "risk_advisory = ''High risk limits (>2%) disabled in MVP for safety.''"

text \<open>
  \<open>handleChange\<close>: an edit of \<open>risk_percentage\<close> whose number is greater than \<open>2.0\<close>
  sets the advisory and returns before the draft is touched; any other edit of that field
  clears the advisory; every edit that was not turned away stores the value.
\<close>

definition handleChange ::
  "(string \<Rightarrow> jsnum) \<Rightarrow> field \<Rightarrow> jsvalue \<Rightarrow> form_state \<Rightarrow> form_state" where
  "handleChange s2n fld v st =
     (if fld = Risk_percentage then
        (if js_gt (Number s2n v) (Num 2) then st\<lparr>error := Some risk_advisory\<rparr>
         else (st\<lparr>error := None\<rparr>)\<lparr>formData := set_field fld v (formData st)\<rparr>)
      else st\<lparr>formData := set_field fld v (formData st)\<rparr>)"

text \<open>The \<open>disabled\<close> attribute of the RUN AUDIT button.\<close>

definition submit_disabled :: "bool \<Rightarrow> form_state \<Rightarrow> bool" where
  "submit_disabled isLoading st = (isLoading \<or> truthy (error st))"

text \<open>
  The two \<open>select\<close> elements: each option with its value and its \<open>disabled\<close>
  attribute, in document order. A browser neither selects a disabled option nor fires
  \<open>onChange\<close> for it.
\<close>

definition symbol_options :: "(string \<times> bool) list" where
  "symbol_options = [(''BTC/USDT'', False), (''ETH/USDT'', False)]"

definition strategy_options :: "(string \<times> bool) list" where
  "strategy_options =
     [(''TREND_FOLLOWING'', False), (''BREAKOUT'', True), (''MEAN_REVERSION'', False)]"

definition selectable :: "(string \<times> bool) list \<Rightarrow> string \<Rightarrow> bool" where
  "selectable opts v = ((v, False) \<in> set opts)"

section \<open>DecisionReport\<close>

text \<open>The \<open>data\<close> property of the report, as \<open>ReportProps\<close> declares it.\<close>

record traffic_light =
  color :: string
  label :: string

record regime_card =
  title :: string
  "value" :: string
  subtext :: string

text \<open>The \<open>title\<close> of the second card is \<open>card_title\<close> here: a field name is declared once.\<close>

record risk_card =
  card_title :: string
  metric_1 :: string
  metric_2 :: string

text \<open>The code tests \<open>ai_analysis.blockers\<close> for presence, so the list may be absent.\<close>

record ai_analysis =
  "text" :: string
  blockers :: "string list option"

record ui_components =
  traffic_light :: traffic_light
  regime_card :: regime_card
  risk_card :: risk_card
  ai_analysis :: ai_analysis

record ReportData =
  asset :: string
  timestamp :: string
  ui_components :: ui_components

datatype icon = CheckCircle | AlertTriangle | XCircle | Shield | Activity

definition statusColors :: "(string \<times> string) list" where
  "statusColors =
     [(''GREEN'', ''bg-green-500/10 border-green-500 text-green-400''),
      (''YELLOW'', ''bg-yellow-500/10 border-yellow-500 text-yellow-400''),
      (''RED'', ''bg-red-500/10 border-red-500 text-red-400''),
      (''GREY'', ''bg-gray-500/10 border-gray-500 text-gray-400'')]"

text \<open>The second object literal, the one \<open>StatusIcon\<close> is read from.\<close>

definition statusIcons :: "(string \<times> icon) list" where
  "statusIcons =
     [(''GREEN'', CheckCircle), (''YELLOW'', AlertTriangle), (''RED'', XCircle),
      (''GREY'', Activity)]"

text \<open>
  \<open>obj[key]\<close> on an object literal: the literal's own property, else the member of that
  name which every object inherits from \<open>Object.prototype\<close>, else \<open>undefined\<close>.
\<close>

definition Object_prototype_names :: "string list" where
  "Object_prototype_names =
     [''constructor'', ''hasOwnProperty'', ''isPrototypeOf'', ''propertyIsEnumerable'',
      ''toLocaleString'', ''toString'', ''valueOf'', ''__proto__'', ''__defineGetter__'',
      ''__defineSetter__'', ''__lookupGetter__'', ''__lookupSetter__'']"

datatype 'a property = Own 'a | Inherited string | Undefined

definition js_member :: "(string \<times> 'a) list \<Rightarrow> string \<Rightarrow> 'a property" where
  "js_member obj k =
     (case map_of obj k of
        Some v \<Rightarrow> Own v
      | None \<Rightarrow> if k \<in> set Object_prototype_names then Inherited k else Undefined)"

text \<open>
  \<open>clsx(a, x)\<close> for a string \<open>a\<close>: the non-empty strings among its arguments, joined by
  a space; \<open>undefined\<close>, a function and an object without enumerable keys add nothing.
\<close>

definition clsx :: "string \<Rightarrow> string property \<Rightarrow> string" where
  "clsx a x =
     (case x of
        Own c \<Rightarrow> if c = [] then a else if a = [] then c else a @ '' '' @ c
      | _ \<Rightarrow> a)"

text \<open>
  What \<open>StatusIcon\<close> is bound to: one of the icon components, or (an inherited member
  being truthy, \<open>||\<close> keeps it) a member of \<open>Object.prototype\<close>, which is no component.
\<close>

datatype component = Icon icon | Foreign string

definition StatusIcon :: "string \<Rightarrow> component" where
  "StatusIcon c =
     (case js_member statusIcons c of
        Own i \<Rightarrow> Icon i
      | Inherited k \<Rightarrow> Foreign k
      | Undefined \<Rightarrow> Icon Activity)"

definition badge_base :: string where
  "badge_base = ''px-4 py-2 rounded-full border flex items-center gap-2''"

text \<open>The status badge of the header: its \<open>className\<close>, its icon and its label.\<close>

record badge =
  className :: string
  badge_icon :: component
  badge_label :: string

definition status_badge :: "traffic_light \<Rightarrow> badge" where
  "status_badge light =
     \<lparr>className = clsx badge_base (js_member statusColors (color light)),
      badge_icon = StatusIcon (color light),
      badge_label = label light\<rparr>"

text \<open>Rendered markup: an element with its tag, its \<open>key\<close> and its children, or a text.\<close>

datatype jsx = Elem string "nat option" "jsx list" | Txt string

text \<open>
  The block under the analysis text. \<open>blockers && blockers.length > 0 && (...)\<close> renders
  nothing when the list is absent or empty.
\<close>

definition blockers_block :: "string list option \<Rightarrow> jsx option" where
  "blockers_block bl =
     (case bl of
        None \<Rightarrow> None
      | Some bs \<Rightarrow>
          if 0 < length bs then
            Some (Elem ''div'' None
              [Elem ''h4'' None [Txt ''Alignment Blockers''],
               Elem ''ul'' None
                 (map (\<lambda>(i, blocker). Elem ''li'' (Some i) [Txt blocker]) (enumerate 0 bs))])
          else None)"

text \<open>The texts of a piece of markup, in document order.\<close>

fun texts :: "jsx \<Rightarrow> string list" where
  "texts (Txt s) = [s]"
| "texts (Elem tag k cs) = concat (map texts cs)"

text \<open>The \<open>li\<close> elements of a piece of markup, in document order, each with its key and texts.\<close>

fun list_items :: "jsx \<Rightarrow> (nat option \<times> string list) list" where
  "list_items (Txt s) = []"
| "list_items (Elem tag k cs) =
     (if tag = ''li'' then [(k, concat (map texts cs))] else concat (map list_items cs))"

section \<open>Home\<close>

text \<open>
  The page: its two \<open>useState\<close> cells, the state of the form it shows while there is no
  report, and what is pending in the event loop: the \<open>axios.post\<close> calls not yet settled,
  each with the request it sent, and the \<open>setTimeout\<close> callbacks not yet run, each with the
  request of its call and the \<open>response.data\<close> it will store. \<open>alerts\<close> are the \<open>alert\<close>
  dialogs shown so far.
\<close>

record app_state =
  report :: "ReportData option"
  loading :: bool
  form :: form_state
  calls :: "AuditRequest list"
  timers :: "(AuditRequest \<times> ReportData) list"
  alerts :: "string list"

definition init_state :: app_state where
  "init_state =
     \<lparr>report = None, loading = False, form = initial_form, calls = [], timers = [],
      alerts = []\<rparr>"

definition failure_alert :: string where
  "failure_alert = ''Failed to connect to the Risk Engine. Is the backend running?''"

definition remove_nth :: "nat \<Rightarrow> 'a list \<Rightarrow> 'a list" where
  "remove_nth i xs = take i xs @ drop (Suc i) xs"

text \<open>\<open>handleAudit\<close> up to its \<open>await\<close>: \<open>setLoading(true)\<close>, and the call is sent.\<close>

definition handleAudit :: "AuditRequest \<Rightarrow> app_state \<Rightarrow> app_state" where
  "handleAudit d s = s\<lparr>loading := True, calls := calls s @ [d]\<rparr>"

text \<open>The call number \<open>i\<close> is answered: \<open>handleAudit\<close> resumes and sets the timer.\<close>

definition post_resolved :: "nat \<Rightarrow> ReportData \<Rightarrow> app_state \<Rightarrow> app_state" where
  "post_resolved i r s =
     (if i < length (calls s) then
        s\<lparr>calls := remove_nth i (calls s), timers := timers s @ [(calls s ! i, r)]\<rparr>
      else s)"

text \<open>The call number \<open>i\<close> fails: the \<open>catch\<close> branch.\<close>

definition post_rejected :: "nat \<Rightarrow> app_state \<Rightarrow> app_state" where
  "post_rejected i s =
     (if i < length (calls s) then
        s\<lparr>calls := remove_nth i (calls s), alerts := alerts s @ [failure_alert],
          loading := False\<rparr>
      else s)"

text \<open>The timer number \<open>j\<close> runs: \<open>setReport(response.data); setLoading(false)\<close>.\<close>

definition timer_fired :: "nat \<Rightarrow> app_state \<Rightarrow> app_state" where
  "timer_fired j s =
     (if j < length (timers s) then
        s\<lparr>timers := remove_nth j (timers s), report := Some (snd (timers s ! j)),
          loading := False\<rparr>
      else s)"

text \<open>The \<open>onClick\<close> of "Back to Cockpit": \<open>setReport(null)\<close>.\<close>

definition back_to_cockpit :: "app_state \<Rightarrow> app_state" where
  "back_to_cockpit s = s\<lparr>report := None\<rparr>"

text \<open>
  What can happen to the page: the user's gestures, and the completions the event loop
  delivers. The two \<open>input\<close> events carry \<open>e.target.value\<close>. A browser hands the value
  of a number input over as the empty string or as a numeral; the page does not check
  that, so an event carries any string; a statement that rests on what the browser
  delivers says so.
\<close>

datatype event =
    SelectSymbol string
  | SelectStrategy string
  | InputBalance string
  | InputRisk string
  | ClickRunAudit
  | ClickBack
  | PostResolves nat ReportData
  | PostRejects nat
  | TimerFires nat

text \<open>
  One event. The form is on the page while \<open>report\<close> is \<open>null\<close> and the back button
  while it is not; a gesture on an element that is not on the page, on a disabled option
  or on the disabled button changes nothing. When the back button brings the form back
  it is mounted anew, with the initial values of its \<open>useState\<close> cells.
\<close>

fun step :: "(string \<Rightarrow> jsnum) \<Rightarrow> event \<Rightarrow> app_state \<Rightarrow> app_state" where
  "step s2n (SelectSymbol v) s =
     (if report s = None \<and> selectable symbol_options v
      then s\<lparr>form := handleChange s2n Symbol (VStr v) (form s)\<rparr> else s)"
| "step s2n (SelectStrategy v) s =
     (if report s = None \<and> selectable strategy_options v
      then s\<lparr>form := handleChange s2n Strategy_type (VStr v) (form s)\<rparr> else s)"
| "step s2n (InputBalance t) s =
     (if report s = None
      then s\<lparr>form := handleChange s2n Account_balance (VNum (Number s2n (VStr t))) (form s)\<rparr>
      else s)"
| "step s2n (InputRisk t) s =
     (if report s = None
      then s\<lparr>form := handleChange s2n Risk_percentage (VNum (Number s2n (VStr t))) (form s)\<rparr>
      else s)"
| "step s2n ClickRunAudit s =
     (if report s = None \<and> \<not> submit_disabled (loading s) (form s)
      then handleAudit (formData (form s)) s else s)"
| "step s2n ClickBack s =
     (if report s \<noteq> None then (back_to_cockpit s)\<lparr>form := initial_form\<rparr> else s)"
| "step s2n (PostResolves i r) s = post_resolved i r s"
| "step s2n (PostRejects i) s = post_rejected i s"
| "step s2n (TimerFires j) s = timer_fired j s"

definition run :: "(string \<Rightarrow> jsnum) \<Rightarrow> event list \<Rightarrow> app_state \<Rightarrow> app_state" where
  "run s2n es s = foldl (\<lambda>s e. step s2n e s) s es"

text \<open>A conversion for the worked examples: it knows three numerals, all else is \<open>NaN\<close>.\<close>

definition demo_s2n :: "string \<Rightarrow> jsnum" where
  "demo_s2n t =
     (if t = ''2.0'' then Num 2 else if t = ''2.5'' then Num (5 / 2)
      else if t = ''0.5'' then Num (1 / 2) else NaN)"

text \<open>A report for the worked examples.\<close>

definition demo_report :: ReportData where
  "demo_report =
     \<lparr>asset = ''BTC/USDT'', timestamp = ''2024-01-01T00:00:00Z'',
      ui_components =
        \<lparr>traffic_light = \<lparr>color = ''RED'', label = ''NO TRADE''\<rparr>,
         regime_card = \<lparr>title = ''Regime'', value = ''Choppy'', subtext = ''Low trend strength''\<rparr>,
         risk_card = \<lparr>card_title = ''Risk'', metric_1 = ''1.2%'', metric_2 = ''0.05 BTC''\<rparr>,
         ai_analysis = \<lparr>text = ''Stand aside.'', blockers = Some [''Trend filter misaligned'']\<rparr>\<rparr>\<rparr>"

section \<open>Sequences of edits\<close>

text \<open>Calls of \<open>handleChange\<close> on one form, in order.\<close>

definition apply_edits ::
  "(string \<Rightarrow> jsnum) \<Rightarrow> (field \<times> jsvalue) list \<Rightarrow> form_state \<Rightarrow> form_state" where
  "apply_edits s2n ops st = foldl (\<lambda>st (fld, v). handleChange s2n fld v st) st ops"

text \<open>An edit of \<open>risk_percentage\<close> that the guardrail lets through.\<close>

definition accepted_risk_edit :: "(string \<Rightarrow> jsnum) \<Rightarrow> field \<times> jsvalue \<Rightarrow> bool" where
  "accepted_risk_edit s2n op =
     (fst op = Risk_percentage \<and> \<not> js_gt (Number s2n (snd op)) (Num 2))"

text \<open>
  The value last accepted for \<open>risk_percentage\<close> by a sequence of edits, \<open>cur\<close> being the
  value before them: stated over the edits alone, to be compared with what the form holds.
\<close>

fun last_accepted_risk ::
  "(string \<Rightarrow> jsnum) \<Rightarrow> jsvalue \<Rightarrow> (field \<times> jsvalue) list \<Rightarrow> jsvalue" where
  "last_accepted_risk s2n cur [] = cur"
| "last_accepted_risk s2n cur (op # ops) =
     last_accepted_risk s2n (if accepted_risk_edit s2n op then snd op else cur) ops"

section \<open>Invariants of the page\<close>

text \<open>The requests on their way: of the calls not yet settled, then of the timers not yet run.\<close>

definition outstanding :: "app_state \<Rightarrow> AuditRequest list" where
  "outstanding s = calls s @ map fst (timers s)"

text \<open>
  While \<open>loading\<close> there is no report and exactly one call or timer is pending;
  otherwise nothing is pending.
\<close>

definition session_inv :: "app_state \<Rightarrow> bool" where
  "session_inv s =
     (if loading s then report s = None \<and> length (calls s) + length (timers s) = 1
      else calls s = [] \<and> timers s = [])"

text \<open>
  What a browser hands over as the value of a number input is the empty string or a
  valid numeral, and \<open>Number\<close> of either is a number, never \<open>NaN\<close>. An event is such an
  input when, being an input of the risk field, its value does not convert to \<open>NaN\<close>.
\<close>

fun risk_input_numeric :: "(string \<Rightarrow> jsnum) \<Rightarrow> event \<Rightarrow> bool" where
  "risk_input_numeric s2n (InputRisk t) = (Number s2n (VStr t) \<noteq> NaN)"
| "risk_input_numeric s2n e = True"

text \<open>The number of the draft's \<open>risk_percentage\<close> is \<open><= 2.0\<close>.\<close>

definition cap_holds :: "(string \<Rightarrow> jsnum) \<Rightarrow> form_state \<Rightarrow> bool" where
  "cap_holds s2n st = js_le (Number s2n (risk_percentage (formData st))) (Num 2)"

text \<open>An input of the risk field that the guardrail lets through.\<close>

fun accepted_risk_input :: "(string \<Rightarrow> jsnum) \<Rightarrow> event \<Rightarrow> bool" where
  "accepted_risk_input s2n (InputRisk t) = (\<not> js_gt (Number s2n (VStr t)) (Num 2))"
| "accepted_risk_input s2n e = False"

text \<open>The form is on the page before, between and after the events \<open>es\<close>, run from \<open>s\<close>.\<close>

fun form_stays :: "(string \<Rightarrow> jsnum) \<Rightarrow> event list \<Rightarrow> app_state \<Rightarrow> bool" where
  "form_stays s2n [] s = (report s = None)"
| "form_stays s2n (e # es) s = (report s = None \<and> form_stays s2n es (step s2n e s))"

text \<open>Nothing is loading, shown or pending, and the alerts are \<open>a\<close>.\<close>

definition at_rest :: "string list \<Rightarrow> app_state \<Rightarrow> bool" where
  "at_rest a s =
     (\<not> loading s \<and> report s = None \<and> calls s = [] \<and> timers s = [] \<and> alerts s = a)"

section \<open>Auxiliary facts\<close>

lemma run_Nil [simp]: "run s2n [] s = s"
  by (simp add: run_def)

lemma run_Cons [simp]: "run s2n (e # es) s = run s2n es (step s2n e s)"
  by (simp add: run_def)

lemma run_snoc: "run s2n (es @ [e]) s = step s2n e (run s2n es s)"
  by (simp add: run_def)

lemma length_remove_nth: "i < length xs \<Longrightarrow> length (remove_nth i xs) = length xs - 1"
  by (simp add: remove_nth_def)

lemma single_pending:
  "length xs + length ys = Suc 0 \<Longrightarrow> i < length xs \<Longrightarrow>
     i = 0 \<and> xs = [xs ! 0] \<and> remove_nth i xs = [] \<and> ys = []"
  by (cases xs; cases "tl xs"; cases ys) (auto simp: remove_nth_def)

lemma session_inv_init: "session_inv init_state"
  by (simp add: session_inv_def init_state_def)

lemma form_events_keep_session: "session_inv s \<Longrightarrow> session_inv (s\<lparr>form := f\<rparr>)"
  by (simp add: session_inv_def)

lemma session_inv_step: "session_inv s \<Longrightarrow> session_inv (step s2n e s)"
proof (cases e)
  case ClickRunAudit
  assume "session_inv s"
  then show ?thesis using ClickRunAudit
    by (auto simp: session_inv_def handleAudit_def submit_disabled_def split: if_splits)
next
  case ClickBack
  assume "session_inv s"
  then show ?thesis using ClickBack
    by (auto simp: session_inv_def back_to_cockpit_def split: if_splits)
next
  case (PostResolves i r)
  assume "session_inv s"
  then show ?thesis using PostResolves
    by (auto simp: session_inv_def post_resolved_def length_remove_nth split: if_splits)
next
  case (PostRejects i)
  assume "session_inv s"
  then show ?thesis using PostRejects
    by (auto simp: session_inv_def post_rejected_def length_remove_nth split: if_splits
        dest: single_pending)
next
  case (TimerFires j)
  assume "session_inv s"
  then show ?thesis using TimerFires
    by (auto simp: session_inv_def timer_fired_def length_remove_nth add.commute split: if_splits
        dest: single_pending)
qed (simp_all add: form_events_keep_session)

lemma session_inv_run: "session_inv s \<Longrightarrow> session_inv (run s2n es s)"
  by (induction es arbitrary: s) (simp_all add: session_inv_step)

lemma session_inv_reachable: "session_inv (run s2n es init_state)"
  by (simp add: session_inv_run session_inv_init)

lemma cap_holds_initial: "cap_holds s2n initial_form"
  by (simp add: cap_holds_def initial_form_def initial_formData_def Number_def js_le_def)

lemma cap_holds_handleChange:
  "cap_holds s2n st \<Longrightarrow> Number s2n v \<noteq> NaN \<Longrightarrow> cap_holds s2n (handleChange s2n fld v st)"
  by (cases fld) (simp_all add: cap_holds_def handleChange_def js_le_def)

lemma cap_holds_other_field:
  "cap_holds s2n st \<Longrightarrow> fld \<noteq> Risk_percentage \<Longrightarrow> cap_holds s2n (handleChange s2n fld v st)"
  by (cases fld) (simp_all add: cap_holds_def handleChange_def)

lemma cap_holds_step:
  "cap_holds s2n (form s) \<Longrightarrow> risk_input_numeric s2n e \<Longrightarrow> cap_holds s2n (form (step s2n e s))"
  by (cases e)
    (simp_all add: cap_holds_handleChange cap_holds_other_field cap_holds_initial handleAudit_def
      back_to_cockpit_def post_resolved_def post_rejected_def timer_fired_def Number_def)

lemma cap_holds_run:
  "cap_holds s2n (form s) \<Longrightarrow> list_all (risk_input_numeric s2n) es \<Longrightarrow>
     cap_holds s2n (form (run s2n es s))"
  by (induction es arbitrary: s) (simp_all add: cap_holds_step)

lemma map_enumerate_snd: "map (\<lambda>p. f (snd p)) (enumerate n bs) = map f bs"
  by (induction bs arbitrary: n) simp_all

lemma concat_singletons: "concat (map (\<lambda>b. [b]) bs) = bs"
  by (induction bs) simp_all

lemma single_pending_elem:
  "length xs + length ys = Suc 0 \<Longrightarrow> i < length xs \<Longrightarrow> \<exists>x. xs = [x] \<and> i = 0 \<and> ys = []"
  by (cases xs; cases "tl xs"; cases ys) auto

lemmas eval_defs = init_state_def initial_form_def initial_formData_def handleChange_def
  Number_def demo_s2n_def submit_disabled_def truthy_def js_le_def handleAudit_def
  back_to_cockpit_def post_resolved_def post_rejected_def timer_fired_def remove_nth_def
  outstanding_def

section \<open>The Risk Guardrail on one edit\<close>

lemma js_le_iff: "js_le v (Num 2) = (v \<noteq> NaN \<and> \<not> js_gt v (Num 2))"
  by (simp add: js_le_def)

lemma js_gt_not_le: "js_gt v (Num 2) \<Longrightarrow> \<not> js_le v (Num 2)"
  by (simp add: js_le_def)

lemma apply_edits_Cons:
  "apply_edits s2n ((fld, v) # ops) st = apply_edits s2n ops (handleChange s2n fld v st)"
  by (simp add: apply_edits_def)

lemma risk_after_one_edit:
  "risk_percentage (formData (handleChange s2n fld v st))
     = (if accepted_risk_edit s2n (fld, v) then v else risk_percentage (formData st))"
  by (cases fld) (simp_all add: handleChange_def accepted_risk_edit_def)

lemma risk_is_last_accepted:
  "risk_percentage (formData (apply_edits s2n ops st))
     = last_accepted_risk s2n (risk_percentage (formData st)) ops"
proof (induction ops arbitrary: st)
  case Nil
  show ?case by (simp add: apply_edits_def)
next
  case (Cons op ops)
  obtain fld v where op: "op = (fld, v)" by (cases op)
  have "risk_percentage (formData (apply_edits s2n (op # ops) st))
          = last_accepted_risk s2n (risk_percentage (formData (handleChange s2n fld v st))) ops"
    using Cons.IH [of "handleChange s2n fld v st"] op by (simp add: apply_edits_Cons)
  also have "\<dots> = last_accepted_risk s2n (risk_percentage (formData st)) (op # ops)"
    using op by (simp add: risk_after_one_edit)
  finally show ?case .
qed

text \<open>
  C1. For every number \<open>v\<close> offered as the new \<open>risk_percentage\<close>: when \<open>v <= 2.0\<close>
  (zero and the negative numbers included) the edit is accepted and the draft's
  \<open>risk_percentage\<close> becomes \<open>v\<close>; when \<open>v > 2.0\<close> the edit is rejected and the draft
  stays as it was. So after any sequence of edits the draft's \<open>risk_percentage\<close> is the
  value of the last accepted edit of that field, or the value before them if there was none.
\<close>

theorem risk_guardrail_on_edit:
  "(js_le v (Num 2) \<longrightarrow>
      risk_percentage (formData (handleChange s2n Risk_percentage (VNum v) st)) = VNum v
      \<and> error (handleChange s2n Risk_percentage (VNum v) st) = None)
   \<and> (js_gt v (Num 2) \<longrightarrow>
      formData (handleChange s2n Risk_percentage (VNum v) st) = formData st
      \<and> error (handleChange s2n Risk_percentage (VNum v) st) = Some risk_advisory)
   \<and> risk_percentage (formData (apply_edits s2n ops st))
       = last_accepted_risk s2n (risk_percentage (formData st)) ops"
  by (simp add: handleChange_def Number_def js_le_def risk_is_last_accepted)

theorem risk_guardrail_on_edit_witness:
  "js_le (Num 2) (Num 2) \<and> js_le (Num 0) (Num 2) \<and> js_le (Num (- 3)) (Num 2)
   \<and> js_gt (Num (5 / 2)) (Num 2)
   \<and> risk_percentage (formData (handleChange (\<lambda>s. NaN) Risk_percentage (VNum (Num 2)) initial_form))
       = VNum (Num 2)
   \<and> risk_percentage (formData (handleChange (\<lambda>s. NaN) Risk_percentage (VNum (Num (- 3))) initial_form))
       = VNum (Num (- 3))
   \<and> risk_percentage (formData (handleChange (\<lambda>s. NaN) Risk_percentage (VNum (Num (5 / 2))) initial_form))
       = VNum (Num 1)
   \<and> error (handleChange (\<lambda>s. NaN) Risk_percentage (VNum (Num (5 / 2))) initial_form)
       = Some risk_advisory
   \<and> risk_percentage (formData (apply_edits (\<lambda>s. NaN)
         [(Risk_percentage, VNum (Num (3 / 2))), (Risk_percentage, VNum (Num (5 / 2))),
          (Symbol, VStr ''ETH/USDT'')] initial_form))
       = VNum (Num (3 / 2))"
  using risk_guardrail_on_edit [of "Num 2" "\<lambda>s. NaN" initial_form "[]"]
    risk_guardrail_on_edit [of "Num (- 3)" "\<lambda>s. NaN" initial_form "[]"]
    risk_guardrail_on_edit [of "Num (5 / 2)" "\<lambda>s. NaN" initial_form
      "[(Risk_percentage, VNum (Num (3 / 2))), (Risk_percentage, VNum (Num (5 / 2))),
        (Symbol, VStr ''ETH/USDT'')]"]
  by (simp add: js_le_def initial_form_def initial_formData_def accepted_risk_edit_def Number_def)

section \<open>The cap as an invariant of the draft\<close>

text \<open>
  C2. After any sequence of events in which the risk input delivers what a number input
  delivers, the draft's \<open>risk_percentage\<close> is \<open><= 2.0\<close>: at every moment, hence at every
  moment the button is enabled. The invariant is kept at the moment of every edit: an
  edit whose number is greater than \<open>2.0\<close> is rejected and leaves the draft, with its prior
  value, as it was, and every edit by a number keeps \<open>risk_percentage <= 2.0\<close>.
\<close>

theorem draft_risk_within_cap:
  "(list_all (risk_input_numeric s2n) es \<longrightarrow>
      js_le (Number s2n (risk_percentage (formData (form (run s2n es init_state))))) (Num 2))
   \<and> (js_gt (Number s2n v) (Num 2) \<longrightarrow>
        formData (handleChange s2n Risk_percentage v st) = formData st)
   \<and> (js_le (Number s2n (risk_percentage (formData st))) (Num 2) \<and> Number s2n v \<noteq> NaN \<longrightarrow>
        js_le (Number s2n (risk_percentage (formData (handleChange s2n fld v st)))) (Num 2))"
proof (intro conjI impI)
  assume "list_all (risk_input_numeric s2n) es"
  then have "cap_holds s2n (form (run s2n es init_state))"
    by (intro cap_holds_run) (simp_all add: init_state_def cap_holds_initial)
  then show "js_le (Number s2n (risk_percentage (formData (form (run s2n es init_state))))) (Num 2)"
    by (simp add: cap_holds_def)
next
  assume "js_gt (Number s2n v) (Num 2)"
  then show "formData (handleChange s2n Risk_percentage v st) = formData st"
    by (simp add: handleChange_def)
next
  assume "js_le (Number s2n (risk_percentage (formData st))) (Num 2) \<and> Number s2n v \<noteq> NaN"
  then show "js_le (Number s2n (risk_percentage (formData (handleChange s2n fld v st)))) (Num 2)"
    using cap_holds_handleChange [of s2n st v fld] by (simp add: cap_holds_def)
qed

theorem draft_risk_within_cap_witness:
  "list_all (risk_input_numeric demo_s2n)
     [InputRisk ''2.5'', InputRisk ''0.5'', SelectSymbol ''ETH/USDT'', ClickRunAudit]
   \<and> risk_percentage (formData (form (run demo_s2n
        [InputRisk ''2.5'', InputRisk ''0.5'', SelectSymbol ''ETH/USDT'', ClickRunAudit] init_state)))
       = VNum (Num (1 / 2))
   \<and> js_le (Number demo_s2n (risk_percentage (formData (form (run demo_s2n
        [InputRisk ''2.5'', InputRisk ''0.5'', SelectSymbol ''ETH/USDT'', ClickRunAudit] init_state)))))
        (Num 2)
   \<and> js_gt (Number demo_s2n (VNum (Num 3))) (Num 2)
   \<and> formData (handleChange demo_s2n Risk_percentage (VNum (Num 3)) initial_form)
       = formData initial_form
   \<and> js_le (Number demo_s2n (risk_percentage (formData initial_form))) (Num 2)
   \<and> Number demo_s2n (VNum (Num 2)) \<noteq> NaN
   \<and> js_le (Number demo_s2n (risk_percentage (formData
        (handleChange demo_s2n Risk_percentage (VNum (Num 2)) initial_form)))) (Num 2)"
  using draft_risk_within_cap
    [of demo_s2n "[InputRisk ''2.5'', InputRisk ''0.5'', SelectSymbol ''ETH/USDT'', ClickRunAudit]"
      "VNum (Num 3)" initial_form Risk_percentage]
    draft_risk_within_cap
    [of demo_s2n "[]" "VNum (Num 2)" initial_form Risk_percentage]
  by (simp add: eval_defs selectable_def symbol_options_def)

section \<open>The status badge\<close>

lemma badge_base_nonempty: "badge_base \<noteq> []"
  by (simp add: badge_base_def)

lemma recognised_colours_are_styled:
  "status_badge \<lparr>color = ''GREEN'', label = l\<rparr>
     = \<lparr>className = badge_base @ '' bg-green-500/10 border-green-500 text-green-400'',
        badge_icon = Icon CheckCircle, badge_label = l\<rparr>
   \<and> status_badge \<lparr>color = ''YELLOW'', label = l\<rparr>
     = \<lparr>className = badge_base @ '' bg-yellow-500/10 border-yellow-500 text-yellow-400'',
        badge_icon = Icon AlertTriangle, badge_label = l\<rparr>
   \<and> status_badge \<lparr>color = ''RED'', label = l\<rparr>
     = \<lparr>className = badge_base @ '' bg-red-500/10 border-red-500 text-red-400'',
        badge_icon = Icon XCircle, badge_label = l\<rparr>"
  by (simp add: status_badge_def js_member_def statusColors_def statusIcons_def clsx_def
      StatusIcon_def badge_base_nonempty)

lemma unknown_colour_badge:
  assumes "c \<notin> fst ` set statusColors" and "c \<notin> set Object_prototype_names"
  shows "status_badge \<lparr>color = c, label = l\<rparr>
           = \<lparr>className = badge_base, badge_icon = Icon Activity, badge_label = l\<rparr>"
proof -
  from assms(1) have "map_of statusColors c = None" by (simp add: map_of_eq_None_iff)
  moreover from assms(1) have "map_of statusIcons c = None"
    by (simp add: statusColors_def statusIcons_def)
  ultimately show ?thesis using assms(2)
    by (simp add: status_badge_def js_member_def clsx_def StatusIcon_def)
qed

text \<open>
  C3. The badge at the colours that are neither \<open>GREEN\<close>, \<open>YELLOW\<close> nor \<open>RED\<close>. For
  \<open>PURPLE\<close> and for the empty string \<open>statusColors\<close> has no entry: the lookup is
  \<open>undefined\<close> and the badge gets no colour classes at all, while the icon, whose lookup
  has a default, is \<open>Activity\<close>. The neutral style is given to \<open>GREY\<close> only. For
  \<open>constructor\<close> the icon lookup finds the inherited member, so the default is not taken
  and the badge's icon is no icon component.
\<close>

theorem unrecognised_colour_gets_no_style:
  "js_member statusColors ''PURPLE'' = Undefined
   \<and> status_badge \<lparr>color = ''PURPLE'', label = l\<rparr>
       = \<lparr>className = badge_base, badge_icon = Icon Activity, badge_label = l\<rparr>
   \<and> status_badge \<lparr>color = [], label = l\<rparr>
       = \<lparr>className = badge_base, badge_icon = Icon Activity, badge_label = l\<rparr>
   \<and> status_badge \<lparr>color = ''GREY'', label = l\<rparr>
       = \<lparr>className = badge_base @ '' bg-gray-500/10 border-gray-500 text-gray-400'',
          badge_icon = Icon Activity, badge_label = l\<rparr>
   \<and> status_badge \<lparr>color = ''constructor'', label = l\<rparr>
       = \<lparr>className = badge_base, badge_icon = Foreign ''constructor'', badge_label = l\<rparr>"
  by (simp add: status_badge_def js_member_def statusColors_def statusIcons_def clsx_def
      StatusIcon_def Object_prototype_names_def badge_base_nonempty)

section \<open>The blockers block\<close>

text \<open>
  C4. The blockers block is rendered exactly when the list of blockers is present and not
  empty. An absent or empty list renders nothing, the heading included; a list of
  \<open>n > 0\<close> blockers renders the heading and \<open>n\<close> list items whose texts are the blockers,
  in their order.
\<close>

theorem blockers_block_iff_nonempty:
  "blockers_block None = None \<and> blockers_block (Some []) = None
   \<and> (blockers_block bl \<noteq> None) = (\<exists>bs. bl = Some bs \<and> 0 < length bs)
   \<and> (bs \<noteq> [] \<longrightarrow> (\<exists>b. blockers_block (Some bs) = Some b
         \<and> texts b = ''Alignment Blockers'' # bs
         \<and> list_items b = map (\<lambda>(i, blocker). (Some i, [blocker])) (enumerate 0 bs)
         \<and> map snd (list_items b) = map (\<lambda>blocker. [blocker]) bs
         \<and> length (list_items b) = length bs))"
proof (intro conjI impI)
  show "blockers_block None = None" by (simp add: blockers_block_def)
  show "blockers_block (Some []) = None" by (simp add: blockers_block_def)
  show "(blockers_block bl \<noteq> None) = (\<exists>bs. bl = Some bs \<and> 0 < length bs)"
    by (cases bl) (simp_all add: blockers_block_def)
next
  assume ne: "bs \<noteq> []"
  let ?items = "map (\<lambda>(i, blocker). Elem ''li'' (Some i) [Txt blocker]) (enumerate 0 bs)"
  let ?b = "Elem ''div'' None [Elem ''h4'' None [Txt ''Alignment Blockers''], Elem ''ul'' None ?items]"
  have b: "blockers_block (Some bs) = Some ?b"
    using ne by (simp add: blockers_block_def)
  have t: "concat (map texts ?items) = bs"
    by (simp add: comp_def case_prod_beta concat_singletons map_enumerate_snd)
  have li: "concat (map list_items ?items)
              = map (\<lambda>(i, blocker). (Some i, [blocker])) (enumerate 0 bs)"
    by (simp add: comp_def case_prod_beta concat_singletons)
  have sn: "map snd (map (\<lambda>(i, blocker). (Some i, [blocker])) (enumerate 0 bs))
              = map (\<lambda>blocker. [blocker]) bs"
    using map_enumerate_snd [of "\<lambda>b. [b]" 0 bs] by (simp add: comp_def case_prod_beta)
  show "\<exists>b. blockers_block (Some bs) = Some b
         \<and> texts b = ''Alignment Blockers'' # bs
         \<and> list_items b = map (\<lambda>(i, blocker). (Some i, [blocker])) (enumerate 0 bs)
         \<and> map snd (list_items b) = map (\<lambda>blocker. [blocker]) bs
         \<and> length (list_items b) = length bs"
    using b t li sn by simp
qed

theorem blockers_block_iff_nonempty_witness:
  "[''Trend filter misaligned'', ''Risk too high''] \<noteq> []
   \<and> blockers_block (Some [''Trend filter misaligned'', ''Risk too high''])
       = Some (Elem ''div'' None
           [Elem ''h4'' None [Txt ''Alignment Blockers''],
            Elem ''ul'' None
              [Elem ''li'' (Some 0) [Txt ''Trend filter misaligned''],
               Elem ''li'' (Some 1) [Txt ''Risk too high'']]])
   \<and> (\<exists>b. blockers_block (Some [''Trend filter misaligned'', ''Risk too high'']) = Some b
         \<and> texts b = [''Alignment Blockers'', ''Trend filter misaligned'', ''Risk too high''])"
  using blockers_block_iff_nonempty
    [of "Some [''Trend filter misaligned'', ''Risk too high'']"
      "[''Trend filter misaligned'', ''Risk too high'']"]
  by (simp add: blockers_block_def)

section \<open>Submitting\<close>

text \<open>
  C5. While the page is submitting (\<open>loading\<close> is true) a click on RUN AUDIT changes
  nothing: the button is disabled, so neither the state nor the pending call is touched.
  Hence after any sequence of events at most one call or timer is pending.
\<close>

theorem submit_while_submitting_is_noop:
  "(loading s \<longrightarrow> step s2n ClickRunAudit s = s)
   \<and> length (calls (run s2n es init_state)) + length (timers (run s2n es init_state)) \<le> 1"
proof -
  have "session_inv (run s2n es init_state)" by (rule session_inv_reachable)
  then have "length (calls (run s2n es init_state)) + length (timers (run s2n es init_state)) \<le> 1"
    by (simp add: session_inv_def split: if_splits)
  then show ?thesis by (simp add: submit_disabled_def)
qed

theorem submit_while_submitting_is_noop_witness:
  "loading (run demo_s2n [ClickRunAudit] init_state)
   \<and> step demo_s2n ClickRunAudit (run demo_s2n [ClickRunAudit] init_state)
       = run demo_s2n [ClickRunAudit] init_state
   \<and> calls (run demo_s2n [ClickRunAudit, ClickRunAudit] init_state) = [initial_formData]
   \<and> length (calls (run demo_s2n [ClickRunAudit, ClickRunAudit] init_state))
       + length (timers (run demo_s2n [ClickRunAudit, ClickRunAudit] init_state)) \<le> 1"
  using submit_while_submitting_is_noop
    [of "run demo_s2n [ClickRunAudit] init_state" demo_s2n "[ClickRunAudit, ClickRunAudit]"]
  by (simp add: eval_defs)

section \<open>Late verdicts\<close>

lemma outstanding_kept_while_loading:
  assumes "session_inv s" and "loading s" and "loading (step s2n e s)"
  shows "outstanding (step s2n e s) = outstanding s"
proof -
  from assms(1,2) have r: "report s = None" and n: "length (calls s) + length (timers s) = Suc 0"
    by (simp_all add: session_inv_def)
  show ?thesis
  proof (cases e)
    case (PostResolves i r')
    show ?thesis
    proof (cases "i < length (calls s)")
      case True
      with n obtain c where "calls s = [c]" and "i = 0" and "timers s = []"
        using single_pending_elem [of "calls s" "timers s" i] by blast
      then show ?thesis using PostResolves
        by (simp add: post_resolved_def outstanding_def remove_nth_def)
    next
      case False
      then show ?thesis using PostResolves by (simp add: post_resolved_def)
    qed
  next
    case (PostRejects i)
    then show ?thesis using assms(3) by (simp add: post_rejected_def split: if_splits)
  next
    case (TimerFires j)
    then show ?thesis using assms(3) by (simp add: timer_fired_def split: if_splits)
  next
    case ClickRunAudit
    then show ?thesis using assms(2) by (simp add: submit_disabled_def)
  next
    case ClickBack
    then show ?thesis using r by simp
  qed (simp_all add: outstanding_def)
qed

lemma response_paired_with_request:
  assumes "session_inv s" and "i < length (calls s)"
  shows "outstanding s = [calls s ! i] \<and> timers (post_resolved i r s) = [(calls s ! i, r)]
         \<and> calls (post_resolved i r s) = []"
proof -
  from assms have l: "loading s" by (auto simp: session_inv_def split: if_splits)
  with assms(1) have "length (calls s) + length (timers s) = Suc 0"
    by (simp add: session_inv_def)
  with assms(2) obtain c where "calls s = [c]" and "i = 0" and "timers s = []"
    using single_pending_elem [of "calls s" "timers s" i] by blast
  then show ?thesis by (simp add: post_resolved_def outstanding_def remove_nth_def)
qed

lemma timer_settles_own_request:
  assumes "session_inv s" and "j < length (timers s)"
  shows "outstanding s = [fst (timers s ! j)]
         \<and> report (timer_fired j s) = Some (snd (timers s ! j))
         \<and> \<not> loading (timer_fired j s) \<and> outstanding (timer_fired j s) = []"
proof -
  from assms have l: "loading s" by (auto simp: session_inv_def split: if_splits)
  with assms(1) have "length (timers s) + length (calls s) = Suc 0"
    by (simp add: session_inv_def)
  with assms(2) obtain p where "timers s = [p]" and "j = 0" and "calls s = []"
    using single_pending_elem [of "timers s" "calls s" j] by blast
  then show ?thesis by (simp add: timer_fired_def outstanding_def remove_nth_def)
qed

lemma outstanding_means_submitting:
  assumes "session_inv s" and "outstanding s \<noteq> []"
  shows "loading s \<and> report s = None \<and> length (outstanding s) = 1 \<and> step s2n ClickBack s = s"
proof -
  from assms have l: "loading s" by (auto simp: session_inv_def outstanding_def split: if_splits)
  with assms(1) show ?thesis by (simp add: session_inv_def outstanding_def)
qed

text \<open>
  C6. A reset never precedes the resolution of an outstanding call, so no verdict arrives
  late, and none is applied to a state it does not belong to. After any sequence of
  events: if a request is on its way then the page is submitting, shows no report,
  exactly one request is on its way, and a click on the back button changes nothing;
  when a report is shown, the only time the back button is there, no request is on its
  way; when the page is not submitting, no answer, failure or timer reaches it; a
  submission starts with its own request as the only one on its way; as long as the page
  stays submitting that request stays the one on its way; the answer to a call is paired
  with the request of that call; and the timer that ends the submission stores the
  answer paired with the one request on its way.
\<close>

theorem verdict_settles_its_own_submission:
  "(outstanding (run s2n es init_state) \<noteq> [] \<longrightarrow>
      loading (run s2n es init_state) \<and> report (run s2n es init_state) = None
      \<and> length (outstanding (run s2n es init_state)) = 1
      \<and> step s2n ClickBack (run s2n es init_state) = run s2n es init_state)
   \<and> (report (run s2n es init_state) \<noteq> None \<longrightarrow> outstanding (run s2n es init_state) = [])
   \<and> (\<not> loading (run s2n es init_state) \<longrightarrow>
      step s2n (PostResolves i r) (run s2n es init_state) = run s2n es init_state
      \<and> step s2n (PostRejects i) (run s2n es init_state) = run s2n es init_state
      \<and> step s2n (TimerFires j) (run s2n es init_state) = run s2n es init_state)
   \<and> (report (run s2n es init_state) = None
       \<and> \<not> submit_disabled (loading (run s2n es init_state)) (form (run s2n es init_state)) \<longrightarrow>
      outstanding (step s2n ClickRunAudit (run s2n es init_state))
        = [formData (form (run s2n es init_state))])
   \<and> (loading (run s2n es init_state) \<and> loading (step s2n e (run s2n es init_state)) \<longrightarrow>
      outstanding (step s2n e (run s2n es init_state)) = outstanding (run s2n es init_state))
   \<and> (i < length (calls (run s2n es init_state)) \<longrightarrow>
      outstanding (run s2n es init_state) = [calls (run s2n es init_state) ! i]
      \<and> timers (step s2n (PostResolves i r) (run s2n es init_state))
          = [(calls (run s2n es init_state) ! i, r)])
   \<and> (j < length (timers (run s2n es init_state)) \<longrightarrow>
      outstanding (run s2n es init_state) = [fst (timers (run s2n es init_state) ! j)]
      \<and> report (step s2n (TimerFires j) (run s2n es init_state))
          = Some (snd (timers (run s2n es init_state) ! j))
      \<and> \<not> loading (step s2n (TimerFires j) (run s2n es init_state)))"
proof -
  let ?s = "run s2n es init_state"
  have inv: "session_inv ?s" by (rule session_inv_reachable)
  have a: "outstanding ?s \<noteq> [] \<longrightarrow>
      loading ?s \<and> report ?s = None \<and> length (outstanding ?s) = 1 \<and> step s2n ClickBack ?s = ?s"
    using outstanding_means_submitting [OF inv] by blast
  from a have a': "report ?s \<noteq> None \<longrightarrow> outstanding ?s = []" by auto
  have q: "\<not> loading ?s \<longrightarrow>
      step s2n (PostResolves i r) ?s = ?s \<and> step s2n (PostRejects i) ?s = ?s
      \<and> step s2n (TimerFires j) ?s = ?s"
    using inv by (simp add: session_inv_def post_resolved_def post_rejected_def timer_fired_def)
  have b: "report ?s = None \<and> \<not> submit_disabled (loading ?s) (form ?s) \<longrightarrow>
      outstanding (step s2n ClickRunAudit ?s) = [formData (form ?s)]"
    using inv by (auto simp: session_inv_def submit_disabled_def handleAudit_def outstanding_def)
  have c: "loading ?s \<and> loading (step s2n e ?s) \<longrightarrow> outstanding (step s2n e ?s) = outstanding ?s"
    using outstanding_kept_while_loading [OF inv] by blast
  have d: "i < length (calls ?s) \<longrightarrow>
      outstanding ?s = [calls ?s ! i]
      \<and> timers (step s2n (PostResolves i r) ?s) = [(calls ?s ! i, r)]"
    using response_paired_with_request [OF inv] by simp
  have e: "j < length (timers ?s) \<longrightarrow>
      outstanding ?s = [fst (timers ?s ! j)]
      \<and> report (step s2n (TimerFires j) ?s) = Some (snd (timers ?s ! j))
      \<and> \<not> loading (step s2n (TimerFires j) ?s)"
    using timer_settles_own_request [OF inv] by simp
  from a a' q b c d e show ?thesis by blast
qed

theorem verdict_settles_its_own_submission_witness:
  "outstanding (run demo_s2n [ClickRunAudit] init_state) \<noteq> []
   \<and> outstanding (run demo_s2n [ClickRunAudit] init_state) = [initial_formData]
   \<and> step demo_s2n ClickBack (run demo_s2n [ClickRunAudit] init_state)
       = run demo_s2n [ClickRunAudit] init_state
   \<and> report init_state = None \<and> \<not> submit_disabled (loading init_state) (form init_state)
   \<and> outstanding (step demo_s2n ClickRunAudit init_state) = [formData (form init_state)]
   \<and> loading (run demo_s2n [ClickRunAudit] init_state)
   \<and> loading (step demo_s2n (InputRisk ''0.5'') (run demo_s2n [ClickRunAudit] init_state))
   \<and> outstanding (run demo_s2n [ClickRunAudit, InputRisk ''0.5''] init_state) = [initial_formData]
   \<and> 0 < length (calls (run demo_s2n [ClickRunAudit] init_state))
   \<and> timers (run demo_s2n [ClickRunAudit, PostResolves 0 demo_report] init_state)
       = [(initial_formData, demo_report)]
   \<and> 0 < length (timers (run demo_s2n [ClickRunAudit, PostResolves 0 demo_report] init_state))
   \<and> report (run demo_s2n [ClickRunAudit, PostResolves 0 demo_report, TimerFires 0] init_state)
       = Some demo_report
   \<and> report (run demo_s2n [ClickRunAudit, PostResolves 0 demo_report, TimerFires 0] init_state)
       \<noteq> None
   \<and> outstanding (run demo_s2n [ClickRunAudit, PostResolves 0 demo_report, TimerFires 0]
        init_state) = []
   \<and> \<not> loading init_state
   \<and> step demo_s2n (TimerFires 0) init_state = init_state
   \<and> step demo_s2n (PostResolves 0 demo_report) init_state = init_state"
  using verdict_settles_its_own_submission
    [of demo_s2n "[ClickRunAudit, PostResolves 0 demo_report, TimerFires 0]" 0 demo_report 0
      ClickBack]
    verdict_settles_its_own_submission
    [of demo_s2n "[ClickRunAudit]" 0 demo_report 0 "InputRisk ''0.5''"]
    verdict_settles_its_own_submission
    [of demo_s2n "[]" 0 demo_report 0 ClickRunAudit]
    verdict_settles_its_own_submission
    [of demo_s2n "[ClickRunAudit, PostResolves 0 demo_report]" 0 demo_report 0 ClickRunAudit]
  by (simp add: eval_defs)

section \<open>The reserved strategy\<close>

lemma handleChange_has_no_guard_of_its_own:
  "strategy_type (formData (handleChange s2n Strategy_type (VStr ''BREAKOUT'') st))
     = VStr ''BREAKOUT''"
  by (simp add: handleChange_def)

text \<open>
  C7. Selecting the reserved strategy \<open>BREAKOUT\<close> changes nothing: its option is disabled,
  so \<open>handleChange\<close> is not called, the draft keeps its \<open>strategy_type\<close>, and neither an
  advisory nor an alert appears, the whole state being as before.
\<close>

theorem reserved_strategy_is_unselectable:
  "step s2n (SelectStrategy ''BREAKOUT'') s = s"
  by (simp add: selectable_def strategy_options_def)

theorem reserved_strategy_is_unselectable_witness:
  "step demo_s2n (SelectStrategy ''BREAKOUT'') init_state = init_state
   \<and> strategy_type (formData (form (step demo_s2n (SelectStrategy ''BREAKOUT'') init_state)))
       = VStr ''TREND_FOLLOWING''
   \<and> strategy_type (formData (form (step demo_s2n (SelectStrategy ''MEAN_REVERSION'') init_state)))
       = VStr ''MEAN_REVERSION''"
  using reserved_strategy_is_unselectable [of demo_s2n init_state]
  by (simp add: eval_defs selectable_def strategy_options_def)

section \<open>The advisory\<close>

lemma rejected_or_other_edit_keeps_advisory:
  "error st = Some risk_advisory \<Longrightarrow> \<not> accepted_risk_edit s2n (fld, v) \<Longrightarrow>
     error (handleChange s2n fld v st) = Some risk_advisory"
  by (simp add: accepted_risk_edit_def handleChange_def)

lemma advisory_kept_by_edits:
  "error st = Some risk_advisory \<Longrightarrow> list_all (\<lambda>op. \<not> accepted_risk_edit s2n op) ops \<Longrightarrow>
     error (apply_edits s2n ops st) = Some risk_advisory"
proof (induction ops arbitrary: st)
  case Nil
  then show ?case by (simp add: apply_edits_def)
next
  case (Cons op ops)
  obtain fld v where op: "op = (fld, v)" by (cases op)
  from Cons.prems op have "error (handleChange s2n fld v st) = Some risk_advisory"
    by (simp add: rejected_or_other_edit_keeps_advisory)
  moreover from Cons.prems have "list_all (\<lambda>op. \<not> accepted_risk_edit s2n op) ops" by simp
  ultimately have "error (apply_edits s2n ops (handleChange s2n fld v st)) = Some risk_advisory"
    by (rule Cons.IH)
  then show ?case using op by (simp add: apply_edits_def)
qed

lemma advisory_kept_by_step:
  assumes "error (form s) = Some risk_advisory" and "\<not> accepted_risk_input s2n e"
    and "report s = None"
  shows "error (form (step s2n e s)) = Some risk_advisory"
proof (cases e)
  case ClickBack
  then show ?thesis using assms by (simp add: back_to_cockpit_def split: if_splits)
next
  case (InputRisk t)
  then show ?thesis using assms by (simp add: handleChange_def Number_def)
qed (use assms in \<open>simp_all add: handleChange_def handleAudit_def post_resolved_def
      post_rejected_def timer_fired_def\<close>)

lemma advisory_kept_by_run:
  "error (form s) = Some risk_advisory \<Longrightarrow> list_all (\<lambda>e. \<not> accepted_risk_input s2n e) es \<Longrightarrow>
     form_stays s2n es s \<Longrightarrow> error (form (run s2n es s)) = Some risk_advisory"
proof (induction es arbitrary: s)
  case Nil
  then show ?case by simp
next
  case (Cons e es)
  from Cons.prems(3) have st: "form_stays s2n es (step s2n e s)" and "report s = None"
    by simp_all
  with Cons.prems have "error (form (step s2n e s)) = Some risk_advisory"
    by (simp add: advisory_kept_by_step)
  with Cons.prems(2) st show ?case by (simp add: Cons.IH)
qed

text \<open>
  An advisory raised while a call is pending does not last until an accepted edit: the
  rejected input sets it, no accepted input follows, and after the report has taken the
  form's place and the back button has brought a form back, that form has no advisory
  and its button is enabled.
\<close>

theorem advisory_dropped_with_form_counterexample:
  "error (form (run demo_s2n [ClickRunAudit, InputRisk ''2.5''] init_state)) = Some risk_advisory
   \<and> list_all (\<lambda>e. \<not> accepted_risk_input demo_s2n e)
        [PostResolves 0 demo_report, TimerFires 0, ClickBack]
   \<and> error (form (run demo_s2n
        [ClickRunAudit, InputRisk ''2.5'', PostResolves 0 demo_report, TimerFires 0, ClickBack]
        init_state)) = None
   \<and> \<not> submit_disabled
        (loading (run demo_s2n
          [ClickRunAudit, InputRisk ''2.5'', PostResolves 0 demo_report, TimerFires 0, ClickBack]
          init_state))
        (form (run demo_s2n
          [ClickRunAudit, InputRisk ''2.5'', PostResolves 0 demo_report, TimerFires 0, ClickBack]
          init_state))"
  by (simp add: eval_defs)

text \<open>
  C8. A rejected edit of \<open>risk_percentage\<close> makes the advisory "High risk limits (>2%)
  disabled in MVP for safety." the form's \<open>error\<close>. It stays so through every later
  sequence of events that holds no accepted input of the risk field, for as long as the
  form stays on the page; the next accepted edit of \<open>risk_percentage\<close> clears it; an edit
  of any other field leaves \<open>error\<close>, whatever it is, as it was. The advisory ends with
  its form: the form the back button mounts after a report has none. The same holds of
  the calls of \<open>handleChange\<close> on one form.
\<close>

theorem advisory_persists_while_form_stays:
  "(report s = None \<and> js_gt (Number s2n (VStr t)) (Num 2) \<longrightarrow>
      error (form (step s2n (InputRisk t) s)) = Some risk_advisory)
   \<and> (error (form s) = Some risk_advisory
       \<and> list_all (\<lambda>e. \<not> accepted_risk_input s2n e) es \<and> form_stays s2n es s \<longrightarrow>
      error (form (run s2n es s)) = Some risk_advisory)
   \<and> (report s = None \<and> accepted_risk_input s2n e \<longrightarrow> error (form (step s2n e s)) = None)
   \<and> (report s \<noteq> None \<longrightarrow> error (form (step s2n ClickBack s)) = None)
   \<and> (js_gt (Number s2n v) (Num 2) \<longrightarrow>
      error (handleChange s2n Risk_percentage v st) = Some risk_advisory)
   \<and> (error st = Some risk_advisory \<and> list_all (\<lambda>op. \<not> accepted_risk_edit s2n op) ops \<longrightarrow>
      error (apply_edits s2n ops st) = Some risk_advisory)
   \<and> (accepted_risk_edit s2n (fld, w) \<longrightarrow> error (handleChange s2n fld w st) = None)
   \<and> (fld \<noteq> Risk_percentage \<longrightarrow> error (handleChange s2n fld w st) = error st)"
proof (intro conjI impI)
  show "error (form (step s2n (InputRisk t) s)) = Some risk_advisory"
    if "report s = None \<and> js_gt (Number s2n (VStr t)) (Num 2)"
    using that by (simp add: handleChange_def Number_def)
  show "error (form (run s2n es s)) = Some risk_advisory"
    if "error (form s) = Some risk_advisory
        \<and> list_all (\<lambda>e. \<not> accepted_risk_input s2n e) es \<and> form_stays s2n es s"
    using that by (simp add: advisory_kept_by_run)
  show "error (form (step s2n e s)) = None" if "report s = None \<and> accepted_risk_input s2n e"
    using that by (cases e) (simp_all add: handleChange_def Number_def)
  show "error (form (step s2n ClickBack s)) = None" if "report s \<noteq> None"
    using that by (simp add: initial_form_def)
  show "error (handleChange s2n Risk_percentage v st) = Some risk_advisory"
    if "js_gt (Number s2n v) (Num 2)"
    using that by (simp add: handleChange_def)
  show "error (apply_edits s2n ops st) = Some risk_advisory"
    if "error st = Some risk_advisory \<and> list_all (\<lambda>op. \<not> accepted_risk_edit s2n op) ops"
    using that by (simp add: advisory_kept_by_edits)
  show "error (handleChange s2n fld w st) = None" if "accepted_risk_edit s2n (fld, w)"
    using that by (simp add: accepted_risk_edit_def handleChange_def)
  show "error (handleChange s2n fld w st) = error st" if "fld \<noteq> Risk_percentage"
    using that by (simp add: handleChange_def)
qed

theorem advisory_persists_while_form_stays_witness:
  "report init_state = None \<and> js_gt (Number demo_s2n (VStr ''2.5'')) (Num 2)
   \<and> error (form (step demo_s2n (InputRisk ''2.5'') init_state)) = Some risk_advisory
   \<and> list_all (\<lambda>e. \<not> accepted_risk_input demo_s2n e)
        [SelectSymbol ''ETH/USDT'', InputBalance ''0.5'', InputRisk ''2.5'', ClickRunAudit]
   \<and> form_stays demo_s2n
        [SelectSymbol ''ETH/USDT'', InputBalance ''0.5'', InputRisk ''2.5'', ClickRunAudit]
        (step demo_s2n (InputRisk ''2.5'') init_state)
   \<and> error (form (run demo_s2n
        [InputRisk ''2.5'', SelectSymbol ''ETH/USDT'', InputBalance ''0.5'', InputRisk ''2.5'',
         ClickRunAudit] init_state)) = Some risk_advisory
   \<and> accepted_risk_input demo_s2n (InputRisk ''2.0'')
   \<and> error (form (run demo_s2n [InputRisk ''2.5'', InputRisk ''2.0''] init_state)) = None
   \<and> report (run demo_s2n
        [ClickRunAudit, InputRisk ''2.5'', PostResolves 0 demo_report, TimerFires 0] init_state)
       \<noteq> None
   \<and> error (form (run demo_s2n
        [ClickRunAudit, InputRisk ''2.5'', PostResolves 0 demo_report, TimerFires 0, ClickBack]
        init_state)) = None
   \<and> js_gt (Number demo_s2n (VNum (Num (5 / 2)))) (Num 2)
   \<and> list_all (\<lambda>op. \<not> accepted_risk_edit demo_s2n op)
        [(Symbol, VStr ''ETH/USDT''), (Risk_percentage, VNum (Num 3))]
   \<and> error (apply_edits demo_s2n [(Symbol, VStr ''ETH/USDT''), (Risk_percentage, VNum (Num 3))]
        (handleChange demo_s2n Risk_percentage (VNum (Num (5 / 2))) initial_form))
       = Some risk_advisory
   \<and> accepted_risk_edit demo_s2n (Risk_percentage, VNum (Num 2))
   \<and> error (handleChange demo_s2n Risk_percentage (VNum (Num 2))
        (handleChange demo_s2n Risk_percentage (VNum (Num (5 / 2))) initial_form)) = None
   \<and> Account_balance \<noteq> Risk_percentage
   \<and> error (handleChange demo_s2n Account_balance (VNum (Num 7))
        (handleChange demo_s2n Risk_percentage (VNum (Num (5 / 2))) initial_form))
       = Some risk_advisory"
  using advisory_persists_while_form_stays
    [of init_state demo_s2n "''2.5''" "[]" "InputRisk ''2.0''" "VNum (Num (5 / 2))" initial_form
      "[]" Risk_percentage "VNum (Num 2)"]
    advisory_persists_while_form_stays
    [of "step demo_s2n (InputRisk ''2.5'') init_state" demo_s2n "''2.5''"
      "[SelectSymbol ''ETH/USDT'', InputBalance ''0.5'', InputRisk ''2.5'', ClickRunAudit]"
      "InputRisk ''2.0''" "VNum (Num (5 / 2))"
      "handleChange demo_s2n Risk_percentage (VNum (Num (5 / 2))) initial_form"
      "[(Symbol, VStr ''ETH/USDT''), (Risk_percentage, VNum (Num 3))]"
      Account_balance "VNum (Num 7)"]
    advisory_persists_while_form_stays
    [of "run demo_s2n
        [ClickRunAudit, InputRisk ''2.5'', PostResolves 0 demo_report, TimerFires 0] init_state"
      demo_s2n "''2.5''" "[]" ClickBack "VNum (Num (5 / 2))"
      "handleChange demo_s2n Risk_percentage (VNum (Num (5 / 2))) initial_form" "[]"
      Risk_percentage "VNum (Num 2)"]
  by (simp add: eval_defs accepted_risk_edit_def apply_edits_def selectable_def symbol_options_def)

section \<open>A failed call\<close>

lemma at_rest_step:
  "at_rest a s \<Longrightarrow> ClickRunAudit \<noteq> e \<Longrightarrow> at_rest a (step s2n e s)"
  by (cases e)
    (simp_all add: at_rest_def post_resolved_def post_rejected_def timer_fired_def)

lemma at_rest_run:
  "at_rest a s \<Longrightarrow> ClickRunAudit \<notin> set es \<Longrightarrow> at_rest a (run s2n es s)"
  by (induction es arbitrary: s) (simp_all add: at_rest_step)

lemma pending_call_is_alone:
  assumes "session_inv s" and "calls s \<noteq> []"
  shows "loading s \<and> report s = None \<and> calls s = [calls s ! 0] \<and> timers s = []"
proof -
  from assms have l: "loading s" by (auto simp: session_inv_def split: if_splits)
  with assms(1) have r: "report s = None" and n: "length (calls s) + length (timers s) = Suc 0"
    by (simp_all add: session_inv_def)
  from assms(2) have "0 < length (calls s)" by simp
  with n have "calls s = [calls s ! 0] \<and> timers s = []"
    using single_pending [of "calls s" "timers s" 0] by simp
  with l r show ?thesis by simp
qed

text \<open>
  C9. When the pending call fails, the page leaves the submitting state (\<open>loading\<close>
  becomes false), the alert "Failed to connect to the Risk Engine. Is the backend
  running?" is shown, no report is stored and nothing stays pending. No retry follows by
  itself: whatever happens next, short of a click on RUN AUDIT, the page stays at rest
  with no further alert. A click on RUN AUDIT submits the draft again, putting the page
  back into the submitting state, unless an advisory is active, in which case it changes
  nothing.
\<close>

theorem failed_call_ends_submission:
  "calls (run s2n es init_state) \<noteq> [] \<longrightarrow>
     loading (run s2n es init_state)
     \<and> \<not> loading (step s2n (PostRejects 0) (run s2n es init_state))
     \<and> report (step s2n (PostRejects 0) (run s2n es init_state)) = None
     \<and> alerts (step s2n (PostRejects 0) (run s2n es init_state))
         = alerts (run s2n es init_state) @ [failure_alert]
     \<and> calls (step s2n (PostRejects 0) (run s2n es init_state)) = []
     \<and> timers (step s2n (PostRejects 0) (run s2n es init_state)) = []
     \<and> form (step s2n (PostRejects 0) (run s2n es init_state)) = form (run s2n es init_state)
     \<and> (ClickRunAudit \<notin> set es' \<longrightarrow>
          at_rest (alerts (run s2n es init_state) @ [failure_alert])
            (run s2n es' (step s2n (PostRejects 0) (run s2n es init_state))))
     \<and> (if truthy (error (form (run s2n es init_state)))
         then step s2n ClickRunAudit (step s2n (PostRejects 0) (run s2n es init_state))
                = step s2n (PostRejects 0) (run s2n es init_state)
         else loading (step s2n ClickRunAudit (step s2n (PostRejects 0) (run s2n es init_state)))
              \<and> calls (step s2n ClickRunAudit (step s2n (PostRejects 0) (run s2n es init_state)))
                  = [formData (form (run s2n es init_state))])"
proof
  let ?s = "run s2n es init_state"
  let ?f = "step s2n (PostRejects 0) ?s"
  assume ne: "calls ?s \<noteq> []"
  have inv: "session_inv ?s" by (rule session_inv_reachable)
  from pending_call_is_alone [OF inv ne]
  have l: "loading ?s" and r: "report ?s = None" and c: "calls ?s = [calls ?s ! 0]"
    and t: "timers ?s = []" by simp_all
  from c have len: "0 < length (calls ?s)" by (metis length_greater_0_conv list.distinct(1))
  from c have rm: "remove_nth 0 (calls ?s) = []"
    by (metis append_Nil drop0 drop_Suc_Cons remove_nth_def take0)
  have f: "post_rejected 0 ?s
       = ?s\<lparr>calls := [], alerts := alerts ?s @ [failure_alert], loading := False\<rparr>"
    using len rm by (simp add: post_rejected_def)
  have rest: "at_rest (alerts ?s @ [failure_alert]) ?f"
    using f r t by (simp add: at_rest_def)
  have quiet: "ClickRunAudit \<notin> set es' \<longrightarrow> at_rest (alerts ?s @ [failure_alert]) (run s2n es' ?f)"
    using rest by (simp add: at_rest_run)
  have again: "if truthy (error (form ?s)) then step s2n ClickRunAudit ?f = ?f
     else loading (step s2n ClickRunAudit ?f)
          \<and> calls (step s2n ClickRunAudit ?f) = [formData (form ?s)]"
    using r by (simp add: f submit_disabled_def handleAudit_def)
  show "loading ?s \<and> \<not> loading ?f \<and> report ?f = None
     \<and> alerts ?f = alerts ?s @ [failure_alert] \<and> calls ?f = [] \<and> timers ?f = []
     \<and> form ?f = form ?s
     \<and> (ClickRunAudit \<notin> set es' \<longrightarrow> at_rest (alerts ?s @ [failure_alert]) (run s2n es' ?f))
     \<and> (if truthy (error (form ?s)) then step s2n ClickRunAudit ?f = ?f
         else loading (step s2n ClickRunAudit ?f)
              \<and> calls (step s2n ClickRunAudit ?f) = [formData (form ?s)])"
    using l quiet again by (simp add: f r t)
qed

theorem failed_call_ends_submission_witness:
  "calls (run demo_s2n [ClickRunAudit] init_state) \<noteq> []
   \<and> ClickRunAudit \<notin> set [InputRisk ''0.5'', ClickBack, TimerFires 0]
   \<and> run demo_s2n [ClickRunAudit, PostRejects 0] init_state
       = init_state\<lparr>alerts := [failure_alert]\<rparr>
   \<and> at_rest [failure_alert]
        (run demo_s2n [ClickRunAudit, PostRejects 0, InputRisk ''0.5'', ClickBack, TimerFires 0]
          init_state)
   \<and> run demo_s2n [ClickRunAudit, PostRejects 0, ClickRunAudit] init_state
       = init_state\<lparr>alerts := [failure_alert], loading := True, calls := [initial_formData]\<rparr>"
  using failed_call_ends_submission
    [of demo_s2n "[ClickRunAudit]" "[InputRisk ''0.5'', ClickBack, TimerFires 0]"]
  by (simp add: eval_defs at_rest_def)

section \<open>A risk that is not a number\<close>

text \<open>
  C10. An edit of \<open>risk_percentage\<close> whose number is \<open>NaN\<close> passes the guardrail, since
  \<open>NaN > 2.0\<close> is false: the draft's \<open>risk_percentage\<close> becomes \<open>NaN\<close>, the advisory is
  cleared, and the button is enabled as far as the form is concerned (it is disabled
  only while an audit is loading). So when the risk input converts to \<open>NaN\<close> while the
  form is shown and nothing is loading, a click on RUN AUDIT submits the draft with
  \<open>risk_percentage\<close> \<open>NaN\<close>.
\<close>

theorem nan_risk_edit_is_accepted:
  "formData (handleChange s2n Risk_percentage (VNum NaN) st)
     = (formData st)\<lparr>risk_percentage := VNum NaN\<rparr>
   \<and> error (handleChange s2n Risk_percentage (VNum NaN) st) = None
   \<and> (\<not> isLoading \<longrightarrow>
        \<not> submit_disabled isLoading (handleChange s2n Risk_percentage (VNum NaN) st))
   \<and> (s2n t = NaN \<and> report s = None \<and> \<not> loading s \<longrightarrow>
        loading (run s2n [InputRisk t, ClickRunAudit] s)
        \<and> calls (run s2n [InputRisk t, ClickRunAudit] s)
            = calls s @ [(formData (form s))\<lparr>risk_percentage := VNum NaN\<rparr>])"
  by (simp add: handleChange_def Number_def submit_disabled_def truthy_def handleAudit_def)

theorem nan_risk_edit_is_accepted_witness:
  "demo_s2n ''abc'' = NaN \<and> report init_state = None \<and> \<not> loading init_state
   \<and> \<not> submit_disabled False (handleChange demo_s2n Risk_percentage (VNum NaN) initial_form)
   \<and> loading (run demo_s2n [InputRisk ''abc'', ClickRunAudit] init_state)
   \<and> calls (run demo_s2n [InputRisk ''abc'', ClickRunAudit] init_state)
       = [initial_formData\<lparr>risk_percentage := VNum NaN\<rparr>]"
  using nan_risk_edit_is_accepted [of demo_s2n initial_form False "''abc''" init_state]
  by (simp add: eval_defs)

end
